theory Spec2Isabelle
  imports Main
begin

section \<open>The review deployment program (infra/review/index.ts)\<close>

text \<open>
  The program is a sequence of resource declarations. Each declaration is the
  construction of a resource object from an argument object; the argument objects are
  modelled as records with the fields the source writes, the values computed from
  the process environment as functions of that environment.
\<close>

subsection \<open>Values read from the process environment\<close>

text \<open>
  \<^verbatim>\<open>process.env["K"]\<close> is a string when the variable is set and \<^verbatim>\<open>undefined\<close>
  when it is not. A template literal applies the language's ToString to every
  substitution and concatenates; ToString of \<^verbatim>\<open>undefined\<close> is the string
  \<^verbatim>\<open>"undefined"\<close>.
\<close>

type_synonym env = "string \<rightharpoonup> string"

datatype jsval = Undefined | Str string

definition process_env :: "env \<Rightarrow> string \<Rightarrow> jsval" where
  "process_env e k = (case e k of None \<Rightarrow> Undefined | Some s \<Rightarrow> Str s)"

fun ToString :: "jsval \<Rightarrow> string" where
  "ToString Undefined = ''undefined''"
| "ToString (Str s) = s"

datatype span = Lit string | Sub jsval

fun span_text :: "span \<Rightarrow> string" where
  "span_text (Lit s) = s"
| "span_text (Sub v) = ToString v"

definition template :: "span list \<Rightarrow> string" where
  "template ps = concat (map span_text ps)"

subsection \<open>Outputs and secrets\<close>

text \<open>
  An output carries a value and a mark saying whether the value is secret.
  \<^verbatim>\<open>pulumi.secret\<close> sets the mark; \<^verbatim>\<open>pulumi.interpolate\<close> concatenates
  strings and outputs, and its result is marked when one of its parts is.
\<close>

record 'a Output =
  output_value :: 'a
  isSecret :: bool

definition pulumi_output :: "'a \<Rightarrow> 'a Output" where
  "pulumi_output v = \<lparr>output_value = v, isSecret = False\<rparr>"

definition pulumi_secret :: "'a \<Rightarrow> 'a Output" where
  "pulumi_secret v = \<lparr>output_value = v, isSecret = True\<rparr>"

definition pulumi_interpolate :: "string Output list \<Rightarrow> string Output" where
  "pulumi_interpolate ps =
     \<lparr>output_value = concat (map output_value ps), isSecret = list_ex isSecret ps\<rparr>"

subsection \<open>Lines 7 to 14: the configuration\<close>

definition route53Zone :: "env \<Rightarrow> string" where
  "route53Zone e = template [Sub (process_env e ''ROUTE_53_ZONE'')]"

definition domain :: "env \<Rightarrow> string" where
  "domain e = template [Lit ''scorer.'', Sub (process_env e ''DOMAIN'')]"

definition SCORER_SERVER_SSM_ARN :: "env \<Rightarrow> string" where
  "SCORER_SERVER_SSM_ARN e = template [Sub (process_env e ''SCORER_SERVER_SSM_ARN'')]"

definition dbUsername :: "env \<Rightarrow> string" where
  "dbUsername e = template [Sub (process_env e ''DB_USER'')]"

definition dbPassword :: "env \<Rightarrow> string Output" where
  "dbPassword e = pulumi_secret (template [Sub (process_env e ''DB_PASSWORD'')])"

definition dbName :: "env \<Rightarrow> string" where
  "dbName e = template [Sub (process_env e ''DB_NAME'')]"

definition dockerGtcPassportIamImage :: "env \<Rightarrow> string" where
  "dockerGtcPassportIamImage e =
     template [Sub (process_env e ''DOCKER_GTC_PASSPORT_SCORER_IMAGE'')]"

subsection \<open>References to outputs of other resources\<close>

text \<open>
  A property such as \<^verbatim>\<open>vpc.id\<close> is known only once the resource exists; the
  declaration holds a reference to it: the variable of the resource and the path
  of the property.
\<close>

datatype ref = Ref string string

subsection \<open>Lines 39 to 58: the security group of the database\<close>

record SecurityGroupRule =
  rule_protocol :: string
  fromPort :: int
  toPort :: int
  cidrBlocks :: "string list"

record SecurityGroupArgs =
  description :: string
  vpcId :: ref
  ingress :: "SecurityGroupRule list"
  egress :: "SecurityGroupRule list"

definition db_secgrp :: SecurityGroupArgs where
  "db_secgrp =
     \<lparr>description = ''Security Group for DB'',
      vpcId = Ref ''vpc'' ''id'',
      ingress =
        [\<lparr>rule_protocol = ''tcp'', fromPort = 5432, toPort = 5432,
          cidrBlocks = [''0.0.0.0/0'']\<rparr>],
      egress =
        [\<lparr>rule_protocol = ''-1'', fromPort = 0, toPort = 0,
          cidrBlocks = [''0.0.0.0/0'']\<rparr>]\<rparr>"

subsection \<open>Lines 61 to 72: the database instance\<close>

record InstanceArgs =
  allocatedStorage :: int
  engine :: string
  instanceClass :: string
  instance_name :: string
  password :: "string Output"
  username :: string
  skipFinalSnapshot :: bool
  dbSubnetGroupName :: ref
  vpcSecurityGroupIds :: "ref list"

definition postgresql :: "env \<Rightarrow> InstanceArgs" where
  "postgresql e =
     \<lparr>allocatedStorage = 10,
      engine = ''postgres'',
      instanceClass = ''db.t3.micro'',
      instance_name = dbName e,
      password = dbPassword e,
      username = dbUsername e,
      skipFinalSnapshot = True,
      dbSubnetGroupName = Ref ''dbSubnetGroup'' ''id'',
      vpcSecurityGroupIds = [Ref ''db_secgrp'' ''id'']\<rparr>"

subsection \<open>Line 76: the connection URL\<close>

text \<open>
  The endpoint of the database instance is assigned by the provider; it is a
  parameter here.
\<close>

definition rdsConnectionUrl :: "env \<Rightarrow> string \<Rightarrow> string Output" where
  "rdsConnectionUrl e rdsEndpoint =
     pulumi_interpolate
       [pulumi_output ''psql://'', pulumi_output (dbUsername e), pulumi_output '':'',
        dbPassword e, pulumi_output ''@'', pulumi_output rdsEndpoint,
        pulumi_output ''/'', pulumi_output (dbName e)]"

subsection \<open>Lines 117 to 144: load balancer, listeners and target group\<close>

record RedirectArgs =
  redirect_protocol :: string
  redirect_port :: string
  statusCode :: string

record ListenerAction =
  action_type :: string
  redirect :: "RedirectArgs option"
  forward_to :: "string option"

record TargetGroupArgs =
  target_name :: string
  target_port :: int
  target_protocol :: "string option"
  healthCheck_path :: string
  unhealthyThreshold :: int

datatype listener_parent = OfLoadBalancer string | OfTargetGroup TargetGroupArgs

record ListenerArgs =
  listener_name :: string
  created_by :: listener_parent
  listener_port :: int
  listener_protocol :: "string option"
  defaultAction :: "ListenerAction option"
  certificateArn :: "ref option"

definition httpListener :: ListenerArgs where
  "httpListener =
     \<lparr>listener_name = ''web-listener'',
      created_by = OfLoadBalancer ''scorer-service'',
      listener_port = 80,
      listener_protocol = Some ''HTTP'',
      defaultAction =
        Some \<lparr>action_type = ''redirect'',
              redirect =
                Some \<lparr>redirect_protocol = ''HTTPS'', redirect_port = ''443'',
                      statusCode = ''HTTP_301''\<rparr>,
              forward_to = None\<rparr>,
      certificateArn = None\<rparr>"

definition target :: TargetGroupArgs where
  "target =
     \<lparr>target_name = ''scorer-target'', target_port = 80, target_protocol = None,
      healthCheck_path = ''/health'', unhealthyThreshold = 5\<rparr>"

definition httpsListener :: ListenerArgs where
  "httpsListener =
     \<lparr>listener_name = ''scorer-listener'',
      created_by = OfTargetGroup target,
      listener_port = 443,
      listener_protocol = None,
      defaultAction = None,
      certificateArn = Some (Ref ''certificateValidation'' ''certificateArn'')\<rparr>"

definition listeners :: "ListenerArgs list" where
  "listeners = [httpListener, httpsListener]"

definition target_groups :: "TargetGroupArgs list" where
  "target_groups = [target]"

text \<open>
  The default actions of a listener: the one action given as \<^verbatim>\<open>defaultAction\<close>
  when there is one; otherwise a listener created by a target group forwards to
  that target group, and a listener created by the load balancer with no action
  forwards to a target group the library creates for it under the listener's name.
\<close>

definition defaultActions :: "ListenerArgs \<Rightarrow> ListenerAction list" where
  "defaultActions l =
     (case defaultAction l of
        Some a \<Rightarrow> [a]
      | None \<Rightarrow>
          (case created_by l of
             OfTargetGroup t \<Rightarrow>
               [\<lparr>action_type = ''forward'', redirect = None,
                 forward_to = Some (target_name t)\<rparr>]
           | OfLoadBalancer b \<Rightarrow>
               [\<lparr>action_type = ''forward'', redirect = None,
                 forward_to = Some (listener_name l)\<rparr>]))"

text \<open>
  A listener serves application traffic on its port when one of its default
  actions forwards to a target group.
\<close>

definition forwards :: "ListenerArgs \<Rightarrow> bool" where
  "forwards l = list_ex (\<lambda>a. action_type a = ''forward'') (defaultActions l)"

definition forwards_to :: "ListenerArgs \<Rightarrow> TargetGroupArgs \<Rightarrow> bool" where
  "forwards_to l t =
     list_ex (\<lambda>a. action_type a = ''forward'' \<and> forward_to a = Some (target_name t))
       (defaultActions l)"

text \<open>
  The source gives the second listener and the target group a port and no
  protocol. The library then takes the protocol from the port: HTTP for 80, 8000,
  8008 and 8080, HTTPS for 443 and 8443, and it rejects any other port.
\<close>

definition computeProtocol :: "int \<Rightarrow> string option" where
  "computeProtocol p =
     (if p = 80 \<or> p = 8000 \<or> p = 8008 \<or> p = 8080 then Some ''HTTP''
      else if p = 443 \<or> p = 8443 then Some ''HTTPS''
      else None)"

definition protocol_of :: "string option \<Rightarrow> int \<Rightarrow> string option" where
  "protocol_of declared p = (case declared of Some x \<Rightarrow> Some x | None \<Rightarrow> computeProtocol p)"

text \<open>
  The places of the program where application traffic is carried: each listener
  that forwards, on the port and protocol of the listener, and each target group a
  listener forwards to, on the port and protocol of the target group.
\<close>

record TrafficPoint =
  point_name :: string
  point_port :: int
  point_protocol :: "string option"

definition listener_point :: "ListenerArgs \<Rightarrow> TrafficPoint" where
  "listener_point l =
     \<lparr>point_name = listener_name l, point_port = listener_port l,
      point_protocol = protocol_of (listener_protocol l) (listener_port l)\<rparr>"

definition target_point :: "TargetGroupArgs \<Rightarrow> TrafficPoint" where
  "target_point t =
     \<lparr>point_name = target_name t, point_port = target_port t,
      point_protocol = protocol_of (target_protocol t) (target_port t)\<rparr>"

definition application_traffic :: "TrafficPoint list" where
  "application_traffic =
     map listener_point (filter forwards listeners) @
     map target_point (filter (\<lambda>t. list_ex (\<lambda>l. forwards_to l t) listeners) target_groups)"

definition plain_http_on_80 :: "TrafficPoint \<Rightarrow> bool" where
  "plain_http_on_80 p = (point_port p = 80 \<and> point_protocol p = Some ''HTTP'')"

subsection \<open>JSON documents and \<^verbatim>\<open>JSON.stringify\<close>\<close>

datatype json = JString string | JArray "json list" | JObject "(string \<times> json) list"

definition hexdigit :: "nat \<Rightarrow> char" where
  "hexdigit n = ''0123456789abcdef'' ! (n mod 16)"

definition QuoteJSONChar :: "char \<Rightarrow> string" where
  "QuoteJSONChar c =
     (if c = CHR 0x08 then [CHR 0x5C, CHR ''b'']
      else if c = CHR 0x09 then [CHR 0x5C, CHR ''t'']
      else if c = CHR 0x0A then [CHR 0x5C, CHR ''n'']
      else if c = CHR 0x0C then [CHR 0x5C, CHR ''f'']
      else if c = CHR 0x0D then [CHR 0x5C, CHR ''r'']
      else if c = CHR 0x22 then [CHR 0x5C, CHR 0x22]
      else if c = CHR 0x5C then [CHR 0x5C, CHR 0x5C]
      else if (of_char c :: nat) < 32
        then [CHR 0x5C, CHR ''u'', CHR ''0'', CHR ''0'',
              hexdigit (of_char c div 16), hexdigit (of_char c mod 16)]
      else [c])"

definition QuoteJSONString :: "string \<Rightarrow> string" where
  "QuoteJSONString s = CHR 0x22 # concat (map QuoteJSONChar s) @ [CHR 0x22]"

fun join :: "string \<Rightarrow> string list \<Rightarrow> string" where
  "join sep [] = []"
| "join sep [x] = x"
| "join sep (x # y # ys) = x @ sep @ join sep (y # ys)"

definition member_text :: "string \<times> string \<Rightarrow> string" where
  "member_text kv = QuoteJSONString (fst kv) @ '':'' @ snd kv"

primrec JSON_stringify :: "json \<Rightarrow> string" where
  "JSON_stringify (JString s) = QuoteJSONString s"
| "JSON_stringify (JArray xs) = ''['' @ join '','' (map JSON_stringify xs) @ '']''"
| "JSON_stringify (JObject kvs) =
     ''{'' @ join '','' (map member_text (map (map_prod id JSON_stringify) kvs)) @ ''}''"

subsection \<open>Lines 163 to 198: the role of the task\<close>

definition assumeRolePolicyDocument :: json where
  "assumeRolePolicyDocument =
     JObject
       [(''Version'', JString ''2012-10-17''),
        (''Statement'',
           JArray
             [JObject
                [(''Action'', JString ''sts:AssumeRole''),
                 (''Effect'', JString ''Allow''),
                 (''Sid'', JString ''''),
                 (''Principal'',
                    JObject [(''Service'', JString ''ecs-tasks.amazonaws.com'')])]])]"

definition inlinePolicyDocument :: "env \<Rightarrow> json" where
  "inlinePolicyDocument e =
     JObject
       [(''Version'', JString ''2012-10-17''),
        (''Statement'',
           JArray
             [JObject
                [(''Action'', JArray [JString ''secretsmanager:GetSecretValue'']),
                 (''Effect'', JString ''Allow''),
                 (''Resource'', JString (SCORER_SERVER_SSM_ARN e))]])]"

record InlinePolicy =
  policy_name :: string
  policy :: string

record RoleArgs =
  assumeRolePolicy :: string
  inlinePolicies :: "InlinePolicy list"
  managedPolicyArns :: "string list"
  tags :: "(string \<times> string) list"

definition dpoppEcsRole :: "env \<Rightarrow> RoleArgs" where
  "dpoppEcsRole e =
     \<lparr>assumeRolePolicy = JSON_stringify assumeRolePolicyDocument,
      inlinePolicies =
        [\<lparr>policy_name = ''allow_iam_secrets_access'',
          policy = JSON_stringify (inlinePolicyDocument e)\<rparr>],
      managedPolicyArns =
        [''arn:aws:iam::aws:policy/service-role/AmazonECSTaskExecutionRolePolicy''],
      tags = [(''dpopp'', '''')]\<rparr>"

subsection \<open>Lines 200 to 235: the container of the service\<close>

record ContainerSecret =
  secret_name :: string
  valueFrom :: string

record ContainerArgs =
  image :: string
  memory :: int
  portMappings :: "ListenerArgs list"
  links :: "string list"
  secrets :: "ContainerSecret list"
  environment :: "(string \<times> string Output) list"

definition scorer_container :: "env \<Rightarrow> string \<Rightarrow> ContainerArgs" where
  "scorer_container e rdsEndpoint =
     \<lparr>image = dockerGtcPassportIamImage e,
      memory = 1024,
      portMappings = [httpsListener],
      links = [],
      secrets =
        [\<lparr>secret_name = ''SECRET_KEY'',
          valueFrom =
            template [Sub (Str (SCORER_SERVER_SSM_ARN e)), Lit '':SECRET_KEY::'']\<rparr>],
      environment =
        [(''DEBUG'', pulumi_output ''on''),
         (''DATABASE_URL'', rdsConnectionUrl e rdsEndpoint),
         (''ALLOWED_HOSTS'', pulumi_output (JSON_stringify (JString (domain e))))]\<rparr>"

text \<open>
  A listener given as a port mapping maps the container port of the target group
  the listener forwards to.
\<close>

definition containerPorts :: "ContainerArgs \<Rightarrow> int list" where
  "containerPorts c =
     concat (map (\<lambda>l. map target_port (filter (forwards_to l) target_groups)) (portMappings c))"

subsection \<open>The resources the program declares\<close>

text \<open>
  Every resource construction of the program in the order of the source: the
  constructor (or the creating method) as the source writes it, and the logical
  name. The block of lines 237 to 243, which would construct an
  \<^verbatim>\<open>aws.appautoscaling.Target\<close>, is a comment and constructs nothing.
\<close>

definition declared_resources :: "env \<Rightarrow> (string \<times> string) list" where
  "declared_resources e =
     [(''awsx.ec2.Vpc'', ''scorer''),
      (''aws.rds.SubnetGroup'', ''scorer-db-subnet''),
      (''aws.ec2.SecurityGroup'', ''scorer-db-secgrp''),
      (''aws.rds.Instance'', ''scorer-db''),
      (''awsx.ecs.Cluster'', ''scorer''),
      (''aws.acm.Certificate'', ''cert''),
      (''aws.route53.Record'', template [Sub (Str (domain e)), Lit ''-validation'']),
      (''aws.acm.CertificateValidation'', ''certificateValidation''),
      (''awsx.lb.ApplicationLoadBalancer'', ''scorer-service''),
      (''alb.createListener'', listener_name httpListener),
      (''alb.createTargetGroup'', target_name target),
      (''target.createListener'', listener_name httpsListener),
      (''aws.route53.Record'', ''scorer''),
      (''aws.iam.Role'', ''dpoppEcsRole''),
      (''awsx.ecs.FargateService'', ''scorer'')]"

subsection \<open>Reading a policy document\<close>

definition member :: "string \<Rightarrow> json \<Rightarrow> json option" where
  "member k j = (case j of JObject kvs \<Rightarrow> map_of kvs k | _ \<Rightarrow> None)"

fun one_or_many :: "json option \<Rightarrow> json list" where
  "one_or_many None = []"
| "one_or_many (Some (JArray xs)) = xs"
| "one_or_many (Some v) = [v]"

definition statements :: "json \<Rightarrow> json list" where
  "statements doc = one_or_many (member ''Statement'' doc)"

definition allow_statements :: "json \<Rightarrow> json list" where
  "allow_statements doc =
     filter (\<lambda>s. member ''Effect'' s = Some (JString ''Allow'')) (statements doc)"

definition actions :: "json \<Rightarrow> json list" where
  "actions s = one_or_many (member ''Action'' s)"

definition resources :: "json \<Rightarrow> json list" where
  "resources s = one_or_many (member ''Resource'' s)"

definition principals :: "json \<Rightarrow> (string \<times> json) list" where
  "principals s =
     (case member ''Principal'' s of
        None \<Rightarrow> []
      | Some (JObject kvs) \<Rightarrow> concat (map (\<lambda>kv. map (Pair (fst kv)) (one_or_many (Some (snd kv)))) kvs)
      | Some v \<Rightarrow> [('''', v)])"

subsection \<open>Reading the serialised text back\<close>

text \<open>
  A reader of the compact text that \<^verbatim>\<open>JSON.stringify\<close> writes for strings,
  arrays and objects. It undoes the escapes of a string literal and rebuilds the
  document, so that what a policy text says can be stated of the text the role is
  given. The number argument bounds the steps; the length of the text is enough.
\<close>

definition hexval :: "char \<Rightarrow> nat option" where
  "hexval c =
     (let n = (of_char c :: nat) in
      if 48 \<le> n \<and> n \<le> 57 then Some (n - 48)
      else if 97 \<le> n \<and> n \<le> 102 then Some (n - 87)
      else if 65 \<le> n \<and> n \<le> 70 then Some (n - 55)
      else None)"

definition unescape :: "char \<Rightarrow> char option" where
  "unescape d =
     (if d = CHR ''b'' then Some (CHR 0x08)
      else if d = CHR ''t'' then Some (CHR 0x09)
      else if d = CHR ''n'' then Some (CHR 0x0A)
      else if d = CHR ''f'' then Some (CHR 0x0C)
      else if d = CHR ''r'' then Some (CHR 0x0D)
      else if d = CHR 0x22 \<or> d = CHR 0x5C \<or> d = CHR ''/'' then Some d
      else None)"

definition unicode_escape :: "char \<Rightarrow> char \<Rightarrow> char \<Rightarrow> char \<Rightarrow> char option" where
  "unicode_escape h1 h2 h3 h4 =
     (case (hexval h1, hexval h2, hexval h3, hexval h4) of
        (Some a, Some b, Some c, Some d) \<Rightarrow>
          if a = 0 \<and> b = 0 then Some (char_of (16 * c + d)) else None
      | _ \<Rightarrow> None)"

fun read_chars :: "string \<Rightarrow> (string \<times> string) option" where
  "read_chars [] = None"
| "read_chars (c # cs) =
     (if c = CHR 0x22 then Some ([], cs)
      else if c = CHR 0x5C then
        (case cs of
           [] \<Rightarrow> None
         | d # ds \<Rightarrow>
             if d = CHR ''u'' then
               (case ds of
                  h1 # h2 # h3 # h4 # r \<Rightarrow>
                    (case unicode_escape h1 h2 h3 h4 of
                       None \<Rightarrow> None
                     | Some x \<Rightarrow> map_option (apfst ((#) x)) (read_chars r))
                | _ \<Rightarrow> None)
             else
               (case unescape d of
                  None \<Rightarrow> None
                | Some x \<Rightarrow> map_option (apfst ((#) x)) (read_chars ds)))
      else if (of_char c :: nat) < 32 then None
      else map_option (apfst ((#) c)) (read_chars cs))"

fun parse_value :: "nat \<Rightarrow> string \<Rightarrow> (json \<times> string) option"
  and parse_elements :: "nat \<Rightarrow> string \<Rightarrow> (json list \<times> string) option"
  and parse_members :: "nat \<Rightarrow> string \<Rightarrow> ((string \<times> json) list \<times> string) option" where
  "parse_value 0 s = None"
| "parse_value (Suc n) s =
     (case s of
        [] \<Rightarrow> None
      | c # cs \<Rightarrow>
          if c = CHR 0x22 then map_option (apfst JString) (read_chars cs)
          else if c = CHR ''['' then
            (case cs of
               [] \<Rightarrow> None
             | d # ds \<Rightarrow>
                 if d = CHR '']'' then Some (JArray [], ds)
                 else map_option (apfst JArray) (parse_elements n cs))
          else if c = CHR ''{'' then
            (case cs of
               [] \<Rightarrow> None
             | d # ds \<Rightarrow>
                 if d = CHR ''}'' then Some (JObject [], ds)
                 else map_option (apfst JObject) (parse_members n cs))
          else None)"
| "parse_elements 0 s = None"
| "parse_elements (Suc n) s =
     (case parse_value n s of
        None \<Rightarrow> None
      | Some (v, r) \<Rightarrow>
          (case r of
             [] \<Rightarrow> None
           | c # cs \<Rightarrow>
               if c = CHR '']'' then Some ([v], cs)
               else if c = CHR '','' then map_option (apfst ((#) v)) (parse_elements n cs)
               else None))"
| "parse_members 0 s = None"
| "parse_members (Suc n) s =
     (case s of
        [] \<Rightarrow> None
      | q # cs \<Rightarrow>
          if q = CHR 0x22 then
            (case read_chars cs of
               None \<Rightarrow> None
             | Some (k, r) \<Rightarrow>
                 (case r of
                    [] \<Rightarrow> None
                  | colon # r1 \<Rightarrow>
                      if colon = CHR '':'' then
                        (case parse_value n r1 of
                           None \<Rightarrow> None
                         | Some (v, r2) \<Rightarrow>
                             (case r2 of
                                [] \<Rightarrow> None
                              | c # t \<Rightarrow>
                                  if c = CHR ''}'' then Some ([(k, v)], t)
                                  else if c = CHR '','' then
                                    map_option (apfst ((#) (k, v))) (parse_members n t)
                                  else None))
                      else None))
          else None)"

definition JSON_parse :: "string \<Rightarrow> json option" where
  "JSON_parse s = (case parse_value (length s) s of Some (j, []) \<Rightarrow> Some j | _ \<Rightarrow> None)"

section \<open>Properties\<close>

subsection \<open>Unset variables\<close>

lemma template_one: "template [Sub v] = ToString v"
  by (simp add: template_def)

lemma process_env_unset: "e k = None \<Longrightarrow> ToString (process_env e k) = ''undefined''"
  by (simp add: process_env_def)

text \<open>
  Claim C8. Each value of lines 7 to 14 is a string for every environment: the
  functions above are total and have no error branch, since ToString is defined on
  \<^verbatim>\<open>undefined\<close>. When the variable a value reads is unset, the value is the
  template with the text \<^verbatim>\<open>undefined\<close> in the place of the variable; the domain
  is then \<^verbatim>\<open>scorer.undefined\<close>. The seven variables are all the program reads.
\<close>

theorem unset_variable_reads_undefined:
  "(e ''ROUTE_53_ZONE'' = None \<longrightarrow> route53Zone e = ''undefined'') \<and>
   (e ''DOMAIN'' = None \<longrightarrow> domain e = ''scorer.undefined'') \<and>
   (e ''SCORER_SERVER_SSM_ARN'' = None \<longrightarrow> SCORER_SERVER_SSM_ARN e = ''undefined'') \<and>
   (e ''DB_USER'' = None \<longrightarrow> dbUsername e = ''undefined'') \<and>
   (e ''DB_PASSWORD'' = None \<longrightarrow> output_value (dbPassword e) = ''undefined'') \<and>
   (e ''DB_NAME'' = None \<longrightarrow> dbName e = ''undefined'') \<and>
   (e ''DOCKER_GTC_PASSPORT_SCORER_IMAGE'' = None \<longrightarrow>
      dockerGtcPassportIamImage e = ''undefined'')"
proof -
  have zone: "e ''ROUTE_53_ZONE'' = None \<longrightarrow> route53Zone e = ''undefined''"
    by (simp add: route53Zone_def template_one process_env_unset)
  have dom: "e ''DOMAIN'' = None \<longrightarrow> domain e = ''scorer.undefined''"
    by (simp add: domain_def template_def process_env_unset)
  have arn: "e ''SCORER_SERVER_SSM_ARN'' = None \<longrightarrow> SCORER_SERVER_SSM_ARN e = ''undefined''"
    by (simp add: SCORER_SERVER_SSM_ARN_def template_one process_env_unset)
  have user: "e ''DB_USER'' = None \<longrightarrow> dbUsername e = ''undefined''"
    by (simp add: dbUsername_def template_one process_env_unset)
  have pw: "e ''DB_PASSWORD'' = None \<longrightarrow> output_value (dbPassword e) = ''undefined''"
    by (simp add: dbPassword_def pulumi_secret_def template_one process_env_unset)
  have name: "e ''DB_NAME'' = None \<longrightarrow> dbName e = ''undefined''"
    by (simp add: dbName_def template_one process_env_unset)
  have img: "e ''DOCKER_GTC_PASSPORT_SCORER_IMAGE'' = None \<longrightarrow>
      dockerGtcPassportIamImage e = ''undefined''"
    by (simp add: dockerGtcPassportIamImage_def template_one process_env_unset)
  from zone dom arn user pw name img show ?thesis by blast
qed

text \<open>The empty environment, where every variable is unset.\<close>

theorem unset_variable_reads_undefined_witness:
  "route53Zone Map.empty = ''undefined'' \<and>
   domain Map.empty = ''scorer.undefined'' \<and>
   SCORER_SERVER_SSM_ARN Map.empty = ''undefined'' \<and>
   dbUsername Map.empty = ''undefined'' \<and>
   output_value (dbPassword Map.empty) = ''undefined'' \<and>
   dbName Map.empty = ''undefined'' \<and>
   dockerGtcPassportIamImage Map.empty = ''undefined''"
  using unset_variable_reads_undefined [of Map.empty] by simp

subsection \<open>The mark of the password\<close>

text \<open>
  The connection URL contains the password and carries its mark, for every
  environment and endpoint, and it is this output that the container receives as
  DATABASE_URL. What a store or a log does with a marked output is outside the
  program.
\<close>

lemma rdsConnectionUrl_marked: "isSecret (rdsConnectionUrl e rdsEndpoint)"
  by (simp add: rdsConnectionUrl_def pulumi_interpolate_def dbPassword_def pulumi_secret_def)

lemma DATABASE_URL_is_rdsConnectionUrl:
  "map_of (environment (scorer_container e rdsEndpoint)) ''DATABASE_URL'' =
     Some (rdsConnectionUrl e rdsEndpoint)"
  by (simp add: scorer_container_def)

subsection \<open>The security group of the database and the declared resources\<close>

text \<open>
  Claim C7. The security group attached to the database instance has one ingress
  rule: protocol tcp, ports 5432 to 5432, CIDR block 0.0.0.0/0. No resource the
  program declares is an application autoscaling target, nor any other resource of
  the appautoscaling module.
\<close>

theorem db_ingress_open_and_no_autoscaling_target:
  "vpcSecurityGroupIds (postgresql e) = [Ref ''db_secgrp'' ''id''] \<and>
   ingress db_secgrp =
     [\<lparr>rule_protocol = ''tcp'', fromPort = 5432, toPort = 5432,
       cidrBlocks = [''0.0.0.0/0'']\<rparr>] \<and>
   filter (\<lambda>r. fst r = ''aws.appautoscaling.Target'') (declared_resources e) = [] \<and>
   filter (\<lambda>r. take 18 (fst r) = ''aws.appautoscaling'') (declared_resources e) = []"
proof -
  have attached: "vpcSecurityGroupIds (postgresql e) = [Ref ''db_secgrp'' ''id'']"
    by (simp add: postgresql_def)
  have rule: "ingress db_secgrp =
     [\<lparr>rule_protocol = ''tcp'', fromPort = 5432, toPort = 5432,
       cidrBlocks = [''0.0.0.0/0'']\<rparr>]"
    by (simp add: db_secgrp_def)
  have none: "filter (\<lambda>r. fst r = ''aws.appautoscaling.Target'') (declared_resources e) = []"
    by (simp add: declared_resources_def)
  have none_of_module:
    "filter (\<lambda>r. take 18 (fst r) = ''aws.appautoscaling'') (declared_resources e) = []"
    by (simp add: declared_resources_def)
  from attached rule none none_of_module show ?thesis by simp
qed

subsection \<open>The listeners and the target group\<close>

lemma defaultActions_httpListener:
  "defaultActions httpListener =
     [\<lparr>action_type = ''redirect'',
       redirect =
         Some \<lparr>redirect_protocol = ''HTTPS'', redirect_port = ''443'',
               statusCode = ''HTTP_301''\<rparr>,
       forward_to = None\<rparr>]"
  by (simp add: defaultActions_def httpListener_def)

lemma defaultActions_httpsListener:
  "defaultActions httpsListener =
     [\<lparr>action_type = ''forward'', redirect = None, forward_to = Some ''scorer-target''\<rparr>]"
  by (simp add: defaultActions_def httpsListener_def target_def)

lemma forwards_listeners: "\<not> forwards httpListener" "forwards httpsListener"
  by (simp_all add: forwards_def defaultActions_httpListener defaultActions_httpsListener)

lemma forwards_to_target: "\<not> forwards_to httpListener target" "forwards_to httpsListener target"
  by (simp_all add: forwards_to_def defaultActions_httpListener defaultActions_httpsListener
      target_def)

lemma application_traffic_points:
  "application_traffic =
     [\<lparr>point_name = ''scorer-listener'', point_port = 443, point_protocol = Some ''HTTPS''\<rparr>,
      \<lparr>point_name = ''scorer-target'', point_port = 80, point_protocol = Some ''HTTP''\<rparr>]"
proof -
  have ls: "filter forwards listeners = [httpsListener]"
    by (simp add: listeners_def forwards_listeners)
  have ts: "filter (\<lambda>t. list_ex (\<lambda>l. forwards_to l t) listeners) target_groups = [target]"
    by (simp add: listeners_def target_groups_def forwards_to_target)
  have lp: "listener_point httpsListener =
      \<lparr>point_name = ''scorer-listener'', point_port = 443, point_protocol = Some ''HTTPS''\<rparr>"
    by (simp add: listener_point_def httpsListener_def protocol_of_def computeProtocol_def)
  have tp: "target_point target =
      \<lparr>point_name = ''scorer-target'', point_port = 80, point_protocol = Some ''HTTP''\<rparr>"
    by (simp add: target_point_def target_def protocol_of_def computeProtocol_def)
  show ?thesis
    by (simp add: application_traffic_def ls ts lp tp)
qed

text \<open>
  Claim C9, as stated, says that nothing in the program carries application
  traffic over plaintext HTTP on port 80. It fails: the target group the
  forwarding listener sends the traffic to is declared with port 80 and no
  protocol, which the library makes HTTP.
\<close>

theorem plain_http_on_80_counterexample:
  "filter plain_http_on_80 application_traffic \<noteq> []"
  by (simp add: application_traffic_points plain_http_on_80_def)

text \<open>
  Claim C9, amended. Of the listeners of the program, one is on port 80. Its default
  actions are exactly one action: a redirect to protocol HTTPS, port 443, with
  status code HTTP_301. No listener on port 80 forwards to a target group; the one
  listener that forwards is on port 443, with protocol HTTPS and the validated
  certificate. Behind the load balancer the application traffic is plaintext HTTP
  on port 80 at exactly one place, the target group scorer-target, and port 80 is
  the port the container is mapped to.
\<close>

theorem port_80_listener_redirects_target_group_serves_http:
  "filter (\<lambda>l. listener_port l = 80) listeners = [httpListener] \<and>
   defaultActions httpListener =
     [\<lparr>action_type = ''redirect'',
       redirect =
         Some \<lparr>redirect_protocol = ''HTTPS'', redirect_port = ''443'',
               statusCode = ''HTTP_301''\<rparr>,
       forward_to = None\<rparr>] \<and>
   filter (\<lambda>l. listener_port l = 80 \<and> forwards l) listeners = [] \<and>
   filter forwards listeners = [httpsListener] \<and>
   listener_port httpsListener = 443 \<and>
   protocol_of (listener_protocol httpsListener) (listener_port httpsListener) = Some ''HTTPS'' \<and>
   certificateArn httpsListener = Some (Ref ''certificateValidation'' ''certificateArn'') \<and>
   filter plain_http_on_80 application_traffic =
     [\<lparr>point_name = ''scorer-target'', point_port = 80, point_protocol = Some ''HTTP''\<rparr>] \<and>
   containerPorts (scorer_container e rdsEndpoint) = [80]"
proof -
  have on80: "filter (\<lambda>l. listener_port l = 80) listeners = [httpListener]"
    by (simp add: listeners_def httpListener_def httpsListener_def)
  have p443: "listener_port httpsListener = 443"
    by (simp add: httpsListener_def)
  have none80: "filter (\<lambda>l. listener_port l = 80 \<and> forwards l) listeners = []"
    by (simp add: listeners_def forwards_listeners p443)
  have fws: "filter forwards listeners = [httpsListener]"
    by (simp add: listeners_def forwards_listeners)
  have https: "protocol_of (listener_protocol httpsListener) (listener_port httpsListener) =
      Some ''HTTPS''"
    by (simp add: httpsListener_def protocol_of_def computeProtocol_def)
  have cert: "certificateArn httpsListener = Some (Ref ''certificateValidation'' ''certificateArn'')"
    by (simp add: httpsListener_def)
  have plain: "filter plain_http_on_80 application_traffic =
      [\<lparr>point_name = ''scorer-target'', point_port = 80, point_protocol = Some ''HTTP''\<rparr>]"
    by (simp add: application_traffic_points plain_http_on_80_def)
  have "target_port target = 80"
    by (simp add: target_def)
  then have ports: "containerPorts (scorer_container e rdsEndpoint) = [80]"
    by (simp add: containerPorts_def scorer_container_def target_groups_def forwards_to_target)
  from on80 defaultActions_httpListener none80 fws p443 https cert plain ports
  show ?thesis by simp
qed

subsection \<open>Serialising and reading back\<close>

text \<open>
  Reading the text of a document gives the document back: the escapes keep every
  string inside its quotes, whatever characters it has.
\<close>

lemma hexval_hexdigit: "n < 16 \<Longrightarrow> hexval (hexdigit n) = Some n"
proof -
  assume "n < 16"
  then consider "n = 0" | "n = 1" | "n = 2" | "n = 3" | "n = 4" | "n = 5" | "n = 6" | "n = 7"
    | "n = 8" | "n = 9" | "n = 10" | "n = 11" | "n = 12" | "n = 13" | "n = 14" | "n = 15"
    by atomize_elim presburger
  then show ?thesis
    by cases (simp_all add: hexval_def hexdigit_def)
qed

lemma unicode_escape_hexdigit:
  assumes "(of_char c :: nat) < 32"
  shows "unicode_escape (CHR ''0'') (CHR ''0'') (hexdigit (of_char c div 16)) (hexdigit (of_char c mod 16)) = Some c"
proof -
  have z: "hexval (CHR ''0'') = Some 0" by (simp add: hexval_def)
  have hi: "hexval (hexdigit (of_char c div 16)) = Some (of_char c div 16)"
    using assms by (intro hexval_hexdigit) linarith
  have lo: "hexval (hexdigit (of_char c mod 16)) = Some (of_char c mod 16)"
    by (intro hexval_hexdigit) simp
  have "char_of (16 * (of_char c div 16) + of_char c mod 16 :: nat) = c"
    by simp
  then show ?thesis
    by (simp add: unicode_escape_def z hi lo)
qed

lemma read_chars_QuoteJSONChar:
  "read_chars (QuoteJSONChar c @ rest) = map_option (apfst ((#) c)) (read_chars rest)"
proof (cases "(of_char c :: nat) < 32")
  case True
  then have ne: "c \<noteq> CHR 0x22" "c \<noteq> CHR 0x5C" by auto
  show ?thesis
    using True ne unicode_escape_hexdigit [OF True]
    by (simp add: QuoteJSONChar_def unescape_def)
next
  case False
  then have "c \<noteq> CHR 0x08" "c \<noteq> CHR 0x09" "c \<noteq> CHR 0x0A" "c \<noteq> CHR 0x0C" "c \<noteq> CHR 0x0D"
    by auto
  with False show ?thesis
    by (simp add: QuoteJSONChar_def unescape_def)
qed

lemma read_chars_quoted:
  "read_chars (concat (map QuoteJSONChar s) @ CHR 0x22 # rest) = Some (s, rest)"
proof (induction s)
  case Nil
  show ?case by simp
next
  case (Cons c s)
  have "read_chars (concat (map QuoteJSONChar (c # s)) @ CHR 0x22 # rest) =
        read_chars (QuoteJSONChar c @ (concat (map QuoteJSONChar s) @ CHR 0x22 # rest))"
    by simp
  also have "\<dots> = map_option (apfst ((#) c)) (read_chars (concat (map QuoteJSONChar s) @ CHR 0x22 # rest))"
    by (rule read_chars_QuoteJSONChar)
  also have "\<dots> = Some (c # s, rest)"
    by (simp add: Cons.IH)
  finally show ?case .
qed


lemma JSON_stringify_head:
  "\<exists>c cs. JSON_stringify j = c # cs \<and> c \<noteq> CHR '']'' \<and> c \<noteq> CHR ''}''"
  by (cases j) (simp_all add: QuoteJSONString_def)

lemma JSON_stringify_length: "0 < length (JSON_stringify j)"
  using JSON_stringify_head [of j] by auto

lemma parse_elements_join:
  assumes "\<And>x n rest. x \<in> set xs \<Longrightarrow> length (JSON_stringify x) \<le> n \<Longrightarrow>
             parse_value n (JSON_stringify x @ rest) = Some (x, rest)"
    and "xs \<noteq> []"
    and "length (join '','' (map JSON_stringify xs)) < n"
  shows "parse_elements n (join '','' (map JSON_stringify xs) @ CHR '']'' # rest) = Some (xs, rest)"
  using assms
proof (induction xs arbitrary: n)
  case Nil
  then show ?case by simp
next
  case (Cons x xs)
  from Cons.prems(3) obtain m where n: "n = Suc m"
    by (cases n) auto
  show ?case
  proof (cases xs)
    case Nil
    have "length (JSON_stringify x) \<le> m"
      using Cons.prems(3) n Nil by simp
    then have "parse_value m (JSON_stringify x @ CHR '']'' # rest) = Some (x, CHR '']'' # rest)"
      using Cons.prems(1) by simp
    then show ?thesis
      by (simp add: n Nil)
  next
    case (Cons y ys)
    let ?tail = "join '','' (map JSON_stringify xs) @ CHR '']'' # rest"
    have len: "length (join '','' (map JSON_stringify (x # xs))) =
        length (JSON_stringify x) + 1 + length (join '','' (map JSON_stringify xs))"
      by (simp add: Cons)
    have "length (JSON_stringify x) \<le> m"
      using Cons.prems(3) n len by simp
    then have first: "parse_value m (JSON_stringify x @ CHR '','' # ?tail) =
        Some (x, CHR '','' # ?tail)"
      using Cons.prems(1) by simp
    have shorter: "length (join '','' (map JSON_stringify xs)) < m"
      using Cons.prems(3) len unfolding n by linarith
    have others: "parse_elements m ?tail = Some (xs, rest)"
    proof (rule Cons.IH)
      show "parse_value n (JSON_stringify x @ rest) = Some (x, rest)"
        if "x \<in> set xs" and "length (JSON_stringify x) \<le> n" for x n rest
        using that Cons.prems(1) [of x n rest] by simp
      show "xs \<noteq> []"
        by (simp add: Cons)
      show "length (join '','' (map JSON_stringify xs)) < m"
        by (rule shorter)
    qed
    have shape: "join '','' (map JSON_stringify (x # xs)) @ CHR '']'' # rest =
        JSON_stringify x @ CHR '','' # ?tail"
      by (simp add: Cons)
    show ?thesis
      unfolding shape n by (simp add: first others)
  qed
qed

lemma parse_members_join:
  assumes "\<And>k v n rest. (k, v) \<in> set kvs \<Longrightarrow> length (JSON_stringify v) \<le> n \<Longrightarrow>
             parse_value n (JSON_stringify v @ rest) = Some (v, rest)"
    and "kvs \<noteq> []"
    and "length (join '','' (map member_text (map (map_prod id JSON_stringify) kvs))) < n"
  shows "parse_members n
           (join '','' (map member_text (map (map_prod id JSON_stringify) kvs)) @ CHR ''}'' # rest) =
         Some (kvs, rest)"
  using assms
proof (induction kvs arbitrary: n)
  case Nil
  then show ?case by simp
next
  case (Cons kv kvs)
  obtain k v where kv: "kv = (k, v)"
    by (cases kv)
  from Cons.prems(3) obtain m where n: "n = Suc m"
    by (cases n) auto
  have mt: "member_text (k, JSON_stringify v) =
      CHR 0x22 # concat (map QuoteJSONChar k) @ CHR 0x22 # CHR '':'' # JSON_stringify v"
    by (simp add: member_text_def QuoteJSONString_def)
  have mlen: "length (JSON_stringify v) < length (member_text (k, JSON_stringify v))"
    by (simp add: mt)
  show ?case
  proof (cases kvs)
    case Nil
    have "length (join '','' (map member_text (map (map_prod id JSON_stringify) (kv # kvs)))) =
        length (member_text (k, JSON_stringify v))"
      by (simp add: Nil kv)
    then have "length (JSON_stringify v) \<le> m"
      using Cons.prems(3) mlen unfolding n by linarith
    then have "parse_value m (JSON_stringify v @ CHR ''}'' # rest) = Some (v, CHR ''}'' # rest)"
      using Cons.prems(1) [of k v] kv by simp
    then show ?thesis
      by (simp add: n Nil mt read_chars_quoted kv)
  next
    case (Cons kv' kvs')
    define tail where
      "tail = join '','' (map member_text (map (map_prod id JSON_stringify) kvs)) @ CHR ''}'' # rest"
    have len: "length (join '','' (map member_text (map (map_prod id JSON_stringify) (kv # kvs)))) =
        length (member_text (k, JSON_stringify v)) + 1 +
        length (join '','' (map member_text (map (map_prod id JSON_stringify) kvs)))"
      by (simp add: Cons kv)
    have "length (JSON_stringify v) \<le> m"
      using Cons.prems(3) len mlen unfolding n by linarith
    then have first: "parse_value m (JSON_stringify v @ CHR '','' # tail) =
        Some (v, CHR '','' # tail)"
      using Cons.prems(1) [of k v] kv by simp
    have shorter: "length (join '','' (map member_text (map (map_prod id JSON_stringify) kvs))) < m"
      using Cons.prems(3) len unfolding n by linarith
    have others: "parse_members m tail = Some (kvs, rest)"
      unfolding tail_def
    proof (rule Cons.IH)
      show "parse_value n (JSON_stringify v @ rest) = Some (v, rest)"
        if "(k, v) \<in> set kvs" and "length (JSON_stringify v) \<le> n" for k v n rest
        using that Cons.prems(1) [of k v n rest] by simp
      show "kvs \<noteq> []"
        by (simp add: Cons)
      show "length (join '','' (map member_text (map (map_prod id JSON_stringify) kvs))) < m"
        by (rule shorter)
    qed
    have shape: "join '','' (map member_text (map (map_prod id JSON_stringify) (kv # kvs))) @
          CHR ''}'' # rest =
        CHR 0x22 # concat (map QuoteJSONChar k) @ CHR 0x22 # CHR '':'' # JSON_stringify v @
          CHR '','' # tail"
      by (simp add: Cons mt kv tail_def)
    show ?thesis
      unfolding shape n by (simp add: read_chars_quoted first others kv)
  qed
qed

lemma parse_value_JSON_stringify:
  "length (JSON_stringify j) \<le> n \<Longrightarrow> parse_value n (JSON_stringify j @ rest) = Some (j, rest)"
proof (induction j arbitrary: n rest)
  case (JString s)
  then obtain m where "n = Suc m"
    by (cases n) (auto simp: QuoteJSONString_def)
  then show ?case
    by (simp add: QuoteJSONString_def read_chars_quoted)
next
  case (JArray xs)
  from JArray.prems obtain m where n: "n = Suc m"
    by (cases n) auto
  show ?case
  proof (cases xs)
    case Nil
    then show ?thesis by (simp add: n)
  next
    case (Cons y ys)
    obtain c cs where hd: "JSON_stringify y = c # cs" "c \<noteq> CHR '']''"
      using JSON_stringify_head [of y] by blast
    have start: "\<exists>d ds. join '','' (map JSON_stringify xs) @ CHR '']'' # rest = d # ds \<and> d \<noteq> CHR '']''"
      using hd Cons by (cases ys) simp_all
    have "length (join '','' (map JSON_stringify xs)) < m"
      using JArray.prems n by simp
    then have "parse_elements m (join '','' (map JSON_stringify xs) @ CHR '']'' # rest) = Some (xs, rest)"
      using JArray.IH Cons by (intro parse_elements_join) simp_all
    with start show ?thesis
      by (auto simp: n)
  qed
next
  case (JObject kvs)
  from JObject.prems obtain m where n: "n = Suc m"
    by (cases n) auto
  let ?body = "join '','' (map member_text (map (map_prod id JSON_stringify) kvs))"
  show ?case
  proof (cases kvs)
    case Nil
    then show ?thesis by (simp add: n)
  next
    case (Cons kv kvs')
    have "\<exists>ds. member_text (map_prod id JSON_stringify kv) = CHR 0x22 # ds"
      by (simp add: member_text_def QuoteJSONString_def)
    then have start: "\<exists>ds. ?body @ CHR ''}'' # rest = CHR 0x22 # ds"
      using Cons by (cases kvs') auto
    have "length (JSON_stringify (JObject kvs)) = length ?body + 2"
      by simp
    then have shorter: "length ?body < m"
      using JObject.prems unfolding n by linarith
    have "parse_members m (?body @ CHR ''}'' # rest) = Some (kvs, rest)"
    proof (rule parse_members_join)
      show "parse_value n (JSON_stringify v @ rest) = Some (v, rest)"
        if "(k, v) \<in> set kvs" and "length (JSON_stringify v) \<le> n" for k v n rest
        using that JObject.IH [of "(k, v)" v n rest] by simp
      show "kvs \<noteq> []"
        by (simp add: Cons)
      show "length ?body < m"
        by (rule shorter)
    qed
    with start show ?thesis
      by (auto simp: n)
  qed
qed

lemma JSON_parse_JSON_stringify: "JSON_parse (JSON_stringify j) = Some j"
  using parse_value_JSON_stringify [of j "length (JSON_stringify j)" "[]"]
  by (simp add: JSON_parse_def)

subsection \<open>The role of the task\<close>

lemma statements_assumeRolePolicyDocument:
  "statements assumeRolePolicyDocument =
     [JObject
        [(''Action'', JString ''sts:AssumeRole''),
         (''Effect'', JString ''Allow''),
         (''Sid'', JString ''''),
         (''Principal'', JObject [(''Service'', JString ''ecs-tasks.amazonaws.com'')])]]"
  by (simp add: statements_def assumeRolePolicyDocument_def member_def)

lemma statements_inlinePolicyDocument:
  "statements (inlinePolicyDocument e) =
     [JObject
        [(''Action'', JArray [JString ''secretsmanager:GetSecretValue'']),
         (''Effect'', JString ''Allow''),
         (''Resource'', JString (SCORER_SERVER_SSM_ARN e))]]"
  by (simp add: statements_def inlinePolicyDocument_def member_def)

lemma assumeRolePolicy_text:
  \<open>JSON_stringify assumeRolePolicyDocument =
     ''{"Version":"2012-10-17","Statement":[{"Action":"sts:AssumeRole","Effect":"Allow","Sid":"","Principal":{"Service":"ecs-tasks.amazonaws.com"}}]}''\<close>
  by (simp add: assumeRolePolicyDocument_def member_text_def QuoteJSONString_def QuoteJSONChar_def)

lemma inlinePolicy_text:
  \<open>JSON_stringify (inlinePolicyDocument e) =
     ''{"Version":"2012-10-17","Statement":[{"Action":["secretsmanager:GetSecretValue"],"Effect":"Allow","Resource":''
     @ QuoteJSONString (SCORER_SERVER_SSM_ARN e) @ ''}]}''\<close>
proof -
  have plain: \<open>QuoteJSONString ''Version'' = ''"Version"''\<close>
    \<open>QuoteJSONString ''2012-10-17'' = ''"2012-10-17"''\<close>
    \<open>QuoteJSONString ''Statement'' = ''"Statement"''\<close>
    \<open>QuoteJSONString ''Action'' = ''"Action"''\<close>
    \<open>QuoteJSONString ''secretsmanager:GetSecretValue'' = ''"secretsmanager:GetSecretValue"''\<close>
    \<open>QuoteJSONString ''Effect'' = ''"Effect"''\<close>
    \<open>QuoteJSONString ''Allow'' = ''"Allow"''\<close>
    \<open>QuoteJSONString ''Resource'' = ''"Resource"''\<close>
    by (simp_all add: QuoteJSONString_def QuoteJSONChar_def)
  show ?thesis
    by (simp add: inlinePolicyDocument_def member_text_def plain)
qed

text \<open>
  Claim C10. The trust policy the role is given is the text written out below; read
  back, it is the document whose only statement allows the action sts:AssumeRole
  to one principal, the service ecs-tasks.amazonaws.com. The role has one inline
  policy. Its text is fixed but for the quoted value of SCORER_SERVER_SSM_ARN; read
  back, for every value of that variable, it is the document whose only statement
  allows one action, secretsmanager:GetSecretValue, on one resource, that value.
\<close>

theorem dpoppEcsRole_trust_and_inline_policy:
  \<open>assumeRolePolicy (dpoppEcsRole e) =
     ''{"Version":"2012-10-17","Statement":[{"Action":"sts:AssumeRole","Effect":"Allow","Sid":"","Principal":{"Service":"ecs-tasks.amazonaws.com"}}]}'' \<and>
   JSON_parse (assumeRolePolicy (dpoppEcsRole e)) = Some assumeRolePolicyDocument \<and>
   assumeRolePolicy (dpoppEcsRole e) = JSON_stringify assumeRolePolicyDocument \<and>
   length (statements assumeRolePolicyDocument) = 1 \<and>
   allow_statements assumeRolePolicyDocument = statements assumeRolePolicyDocument \<and>
   concat (map actions (statements assumeRolePolicyDocument)) = [JString ''sts:AssumeRole''] \<and>
   concat (map principals (statements assumeRolePolicyDocument)) =
     [(''Service'', JString ''ecs-tasks.amazonaws.com'')] \<and>
   map policy_name (inlinePolicies (dpoppEcsRole e)) = [''allow_iam_secrets_access''] \<and>
   map policy (inlinePolicies (dpoppEcsRole e)) =
     [''{"Version":"2012-10-17","Statement":[{"Action":["secretsmanager:GetSecretValue"],"Effect":"Allow","Resource":''
      @ QuoteJSONString (SCORER_SERVER_SSM_ARN e) @ ''}]}''] \<and>
   read_chars (tl (QuoteJSONString (SCORER_SERVER_SSM_ARN e)) @ ''}]}'') =
     Some (SCORER_SERVER_SSM_ARN e, ''}]}'') \<and>
   map (\<lambda>p. JSON_parse (policy p)) (inlinePolicies (dpoppEcsRole e)) =
     [Some (inlinePolicyDocument e)] \<and>
   inlinePolicies (dpoppEcsRole e) =
     [\<lparr>policy_name = ''allow_iam_secrets_access'',
       policy = JSON_stringify (inlinePolicyDocument e)\<rparr>] \<and>
   length (statements (inlinePolicyDocument e)) = 1 \<and>
   allow_statements (inlinePolicyDocument e) = statements (inlinePolicyDocument e) \<and>
   concat (map actions (statements (inlinePolicyDocument e))) =
     [JString ''secretsmanager:GetSecretValue''] \<and>
   concat (map resources (statements (inlinePolicyDocument e))) =
     [JString (SCORER_SERVER_SSM_ARN e)]\<close>
proof -
  have trust: "assumeRolePolicy (dpoppEcsRole e) = JSON_stringify assumeRolePolicyDocument"
    by (simp add: dpoppEcsRole_def)
  have t_parse: "JSON_parse (assumeRolePolicy (dpoppEcsRole e)) = Some assumeRolePolicyDocument"
    unfolding trust by (rule JSON_parse_JSON_stringify)
  have t_allow: "allow_statements assumeRolePolicyDocument = statements assumeRolePolicyDocument"
    by (simp add: allow_statements_def statements_assumeRolePolicyDocument member_def)
  have t_act: "concat (map actions (statements assumeRolePolicyDocument)) =
      [JString ''sts:AssumeRole'']"
    by (simp add: statements_assumeRolePolicyDocument actions_def member_def)
  have t_pr: "concat (map principals (statements assumeRolePolicyDocument)) =
      [(''Service'', JString ''ecs-tasks.amazonaws.com'')]"
    by (simp add: statements_assumeRolePolicyDocument principals_def member_def)
  have inl: "inlinePolicies (dpoppEcsRole e) =
     [\<lparr>policy_name = ''allow_iam_secrets_access'',
       policy = JSON_stringify (inlinePolicyDocument e)\<rparr>]"
    by (simp add: dpoppEcsRole_def)
  have i_name: "map policy_name (inlinePolicies (dpoppEcsRole e)) = [''allow_iam_secrets_access'']"
    by (simp add: inl)
  have i_text: "map policy (inlinePolicies (dpoppEcsRole e)) =
      [JSON_stringify (inlinePolicyDocument e)]"
    by (simp add: inl)
  have i_lit: "read_chars (tl (QuoteJSONString (SCORER_SERVER_SSM_ARN e)) @ ''}]}'') =
      Some (SCORER_SERVER_SSM_ARN e, ''}]}'')"
    using read_chars_quoted [of "SCORER_SERVER_SSM_ARN e" "''}]}''"]
    by (simp add: QuoteJSONString_def)
  have i_parse: "map (\<lambda>p. JSON_parse (policy p)) (inlinePolicies (dpoppEcsRole e)) =
      [Some (inlinePolicyDocument e)]"
    by (simp add: inl JSON_parse_JSON_stringify)
  have i_allow: "allow_statements (inlinePolicyDocument e) = statements (inlinePolicyDocument e)"
    by (simp add: allow_statements_def statements_inlinePolicyDocument member_def)
  have i_act: "concat (map actions (statements (inlinePolicyDocument e))) =
      [JString ''secretsmanager:GetSecretValue'']"
    by (simp add: statements_inlinePolicyDocument actions_def member_def)
  have i_res: "concat (map resources (statements (inlinePolicyDocument e))) =
      [JString (SCORER_SERVER_SSM_ARN e)]"
    by (simp add: statements_inlinePolicyDocument resources_def member_def)
  have t_len: "length (statements assumeRolePolicyDocument) = 1"
    by (simp add: statements_assumeRolePolicyDocument)
  have i_len: "length (statements (inlinePolicyDocument e)) = 1"
    by (simp add: statements_inlinePolicyDocument)
  note t_text = trust [unfolded assumeRolePolicy_text]
  note i_text' = i_text [unfolded inlinePolicy_text]
  from t_text t_parse trust t_len t_allow t_act t_pr i_name i_text' i_lit i_parse inl i_len
    i_allow i_act i_res
  show ?thesis by blast
qed

end
